theory Spec2Isabelle
  imports Main "HOL-Library.Word"
begin

unbundle bit_operations_syntax

section \<open>DAPjs transports: the HID and USB backends\<close>

text \<open>
  A shallow embedding of the two transport classes of DAPjs, \<^verbatim>\<open>HID\<close>
  (\<^verbatim>\<open>src/unnamed/part_000\<close>) and \<^verbatim>\<open>USB\<close> (\<^verbatim>\<open>src/src/transport/usb.ts\<close>).
  Each method becomes a function that takes the answer of the native driver and the
  object's fields, and returns the updated fields, the driver calls it issued (in
  order) and the state in which it leaves the promise it returned.
\<close>

subsection \<open>Bytes, buffers, errors and promises\<close>

type_synonym byte = "8 word"

text \<open>
  A \<^verbatim>\<open>BufferSource\<close> is an \<^verbatim>\<open>ArrayBuffer\<close> or a view on one. A view carries its
  backing buffer, and the offset and length of its window; both classes only ever
  read \<^verbatim>\<open>.buffer\<close>.
\<close>

datatype buffer_source =
    ArrayBuffer "byte list"
  | ArrayBufferView "byte list" nat nat

text \<open>Values that a promise is rejected with, or that a statement throws.\<close>

datatype error =
    Driver string
  | TypeError
  | Error string
  | Str string

text \<open>The result of a synchronous driver call: it returns or it throws.\<close>

datatype 'a completion = Returns 'a | Throws error

text \<open>
  The promise a method returns. An exception thrown while the executor itself runs
  rejects the promise. \<open>Uncaught\<close> is the third case: a \<^verbatim>\<open>throw\<close> inside a completion
  callback that the driver invokes, where neither \<^verbatim>\<open>resolve\<close> nor \<^verbatim>\<open>reject\<close> is
  called and the exception leaves through the driver.
\<close>

datatype 'a promise = Resolved 'a | Rejected error | Uncaught error

subsection \<open>USB descriptors and the driver calls\<close>

record Endpoint =
  address :: nat
  direction :: string
  wMaxPacketSize :: nat

record Interface =
  interfaceNumber :: nat
  bInterfaceClass :: nat
  endpoints :: "Endpoint list"

record Device =
  interfaces :: "Interface list"

datatype hid_handle = Handle string

datatype call =
    New_Device string
  | Hid_close hid_handle
  | Hid_read hid_handle
  | Hid_write hid_handle "byte list"
  | Device_open
  | Set_configuration nat
  | Device_close
  | In_transfer Endpoint nat
  | Out_transfer Endpoint "byte list"
  | Control_in nat nat nat nat nat
  | Control_out nat nat nat nat "byte list"

text \<open>\<^verbatim>\<open>isView(data) ? data.buffer : data\<close>, the bytes both \<^verbatim>\<open>write\<close> methods work on.\<close>

definition arrayBufferOf :: "buffer_source \<Rightarrow> byte list" where
  "arrayBufferOf data = (case data of ArrayBuffer bs \<Rightarrow> bs | ArrayBufferView bs _ _ \<Rightarrow> bs)"

text \<open>
  The bytes a \<^verbatim>\<open>BufferSource\<close> stands for to the caller who passes it: an \<^verbatim>\<open>ArrayBuffer\<close>
  is its own bytes, a view is the window of \<^verbatim>\<open>byteLength\<close> bytes that starts at
  \<^verbatim>\<open>byteOffset\<close> in its buffer. Neither class computes this; it is what the payload of
  a call is measured against.
\<close>

definition payload :: "buffer_source \<Rightarrow> byte list" where
  "payload data =
     (case data of
        ArrayBuffer bs \<Rightarrow> bs
      | ArrayBufferView bs byteOffset byteLength \<Rightarrow> take byteLength (drop byteOffset bs))"

subsection \<open>The HID backend\<close>

definition PACKET_SIZE :: nat where
  "PACKET_SIZE = 64"

record HID =
  hid_os :: string
  hid_path :: string
  hid_device :: "hid_handle option"

text \<open>The constructor: \<^verbatim>\<open>os = platform()\<close>, \<^verbatim>\<open>device = null\<close>.\<close>

definition HID_new :: "string \<Rightarrow> string \<Rightarrow> HID" where
  "HID_new platform p = \<lparr>hid_os = platform, hid_path = p, hid_device = None\<rparr>"

definition HID_open :: "unit completion \<Rightarrow> HID \<Rightarrow> HID \<times> call list \<times> unit promise" where
  "HID_open r s =
     (if hid_path s = [] then (s, [], Rejected (Str ''No path specified''))
      else case r of
             Returns _ \<Rightarrow>
               (s\<lparr>hid_device := Some (Handle (hid_path s))\<rparr>, [New_Device (hid_path s)], Resolved ())
           | Throws ex \<Rightarrow> (s, [New_Device (hid_path s)], Rejected ex))"

definition HID_close :: "unit completion \<Rightarrow> HID \<Rightarrow> HID \<times> call list \<times> unit promise" where
  "HID_close r s =
     (case hid_device s of
        None \<Rightarrow> (s, [], Resolved ())
      | Some h \<Rightarrow>
          (case r of
             Throws ex \<Rightarrow> (s, [Hid_close h], Rejected ex)
           | Returns _ \<Rightarrow> (s\<lparr>hid_device := None\<rparr>, [Hid_close h], Resolved ())))"

text \<open>
  \<^verbatim>\<open>read\<close>: the driver's callback receives \<^verbatim>\<open>(error, data)\<close>; \<^verbatim>\<open>new Uint8Array(data)\<close>
  reduces each number to a byte.
\<close>

definition HID_read :: "error option \<times> nat list \<Rightarrow> HID \<Rightarrow> HID \<times> call list \<times> byte list promise" where
  "HID_read r s =
     (case hid_device s of
        None \<Rightarrow> (s, [], Rejected TypeError)
      | Some h \<Rightarrow>
          (case fst r of
             Some e \<Rightarrow> (s, [Hid_read h], Rejected e)
           | None \<Rightarrow> (s, [Hid_read h], Resolved (map of_nat (snd r)))))"

text \<open>\<^verbatim>\<open>while (array.length < PACKET_SIZE) array.push(0);\<close>\<close>

function pad :: "byte list \<Rightarrow> byte list" where
  "pad array = (if length array < PACKET_SIZE then pad (array @ [0]) else array)"
  by pat_completeness auto
termination
  by (relation "measure (\<lambda>array. PACKET_SIZE - length array)") auto

declare pad.simps [simp del]

text \<open>The array that \<^verbatim>\<open>write\<close> hands to \<^verbatim>\<open>this.device.write\<close>.\<close>

definition HID_write_array :: "string \<Rightarrow> buffer_source \<Rightarrow> byte list" where
  "HID_write_array platform data =
     (let arrayBuffer = arrayBufferOf data;
          array = pad arrayBuffer
      in if platform = ''win32'' then 0 # array else array)"

text \<open>
  \<^verbatim>\<open>write\<close>: the driver's \<^verbatim>\<open>write\<close> is called synchronously inside the executor; the
  byte count it returns is dropped, and an exception it throws rejects the promise.
\<close>

definition HID_write :: "nat completion \<Rightarrow> HID \<Rightarrow> buffer_source \<Rightarrow> HID \<times> call list \<times> unit promise" where
  "HID_write r s data =
     (let array = HID_write_array (hid_os s) data
      in case hid_device s of
           None \<Rightarrow> (s, [], Rejected TypeError)
         | Some h \<Rightarrow>
             (case r of
                Throws ex \<Rightarrow> (s, [Hid_write h array], Rejected ex)
              | Returns _ \<Rightarrow> (s, [Hid_write h array], Resolved ())))"

subsection \<open>The USB backend\<close>

definition DEFAULT_CLASS :: nat where
  "DEFAULT_CLASS = 0xFF"

definition GET_REPORT :: nat where
  "GET_REPORT = 0x01"

definition SET_REPORT :: nat where
  "SET_REPORT = 0x09"

definition OUT_REPORT :: nat where
  "OUT_REPORT = 0x200"

definition IN_REPORT :: nat where
  "IN_REPORT = 0x100"

text \<open>
  Modelled from the spec: the four request-type constants that \<^verbatim>\<open>usb.ts\<close> imports from
  the \<^verbatim>\<open>usb\<close> package, which is not part of the sources. The specification names them as
  the class and interface-recipient bits combined with the direction; the numbers are
  those of the USB standard's \<^verbatim>\<open>bmRequestType\<close> field.
\<close>

definition LIBUSB_REQUEST_TYPE_CLASS :: nat where
  "LIBUSB_REQUEST_TYPE_CLASS = 0x20"

definition LIBUSB_RECIPIENT_INTERFACE :: nat where
  "LIBUSB_RECIPIENT_INTERFACE = 0x01"

definition LIBUSB_ENDPOINT_IN :: nat where
  "LIBUSB_ENDPOINT_IN = 0x80"

definition LIBUSB_ENDPOINT_OUT :: nat where
  "LIBUSB_ENDPOINT_OUT = 0x00"

record USB =
  usb_device :: Device
  interfaceClass :: nat
  interface :: "Interface option"
  endpointIn :: "Endpoint option"
  endpointOut :: "Endpoint option"

text \<open>The constructor; the three private fields start out undefined.\<close>

definition USB_new :: "Device \<Rightarrow> nat \<Rightarrow> USB" where
  "USB_new dev cls =
     \<lparr>usb_device = dev, interfaceClass = cls, interface = None,
      endpointIn = None, endpointOut = None\<rparr>"

text \<open>\<^verbatim>\<open>new Uint8Array(buffer).buffer\<close> wrapped in a \<^verbatim>\<open>DataView\<close>: a copy of the bytes.\<close>

definition bufferToDataView :: "byte list \<Rightarrow> byte list" where
  "bufferToDataView buffer = buffer"

definition bufferSourceToBuffer :: "buffer_source \<Rightarrow> byte list" where
  "bufferSourceToBuffer bufferSource = arrayBufferOf bufferSource"

text \<open>
  \<^verbatim>\<open>ArrayBuffer.prototype.slice(begin)\<close> with its one argument, a number between 0 and
  the byte length: the bytes from index \<open>begin\<close> to the end.
\<close>

definition slice :: "byte list \<Rightarrow> nat \<Rightarrow> byte list" where
  "slice arrayBuffer begin = drop (min begin (length arrayBuffer)) arrayBuffer"

definition sliceBuffer :: "buffer_source \<Rightarrow> nat \<Rightarrow> buffer_source" where
  "sliceBuffer data packetSize =
     (let arrayBuffer = arrayBufferOf data;
          len = min (length arrayBuffer) packetSize
      in ArrayBuffer (slice arrayBuffer len))"

text \<open>The \<^verbatim>\<open>forEach\<close> over the endpoints of the chosen interface, in \<^verbatim>\<open>open\<close>.\<close>

fun forEach_endpoint :: "Endpoint list \<Rightarrow> USB \<Rightarrow> USB" where
  "forEach_endpoint [] s = s"
| "forEach_endpoint (endpoint # rest) s =
     forEach_endpoint rest
       (if direction endpoint = ''in'' then s\<lparr>endpointIn := Some endpoint\<rparr>
        else s\<lparr>endpointOut := Some endpoint\<rparr>)"

text \<open>
  \<^verbatim>\<open>open\<close>: \<open>r_open\<close> is the result of the synchronous \<^verbatim>\<open>device.open()\<close>, \<open>r_cfg\<close> the
  error that the driver passes to the callback of \<^verbatim>\<open>setConfiguration\<close>. The body of that
  callback rejects on a driver error, throws when no interface matches, and resolves
  otherwise.
\<close>

definition USB_open :: "unit completion \<Rightarrow> error option \<Rightarrow> USB \<Rightarrow> USB \<times> call list \<times> unit promise" where
  "USB_open r_open r_cfg s =
     (let s0 = s\<lparr>endpointIn := None, endpointOut := None\<rparr>
      in case r_open of
           Throws ex \<Rightarrow> (s0, [Device_open], Rejected ex)
         | Returns _ \<Rightarrow>
             (case r_cfg of
                Some err \<Rightarrow> (s0, [Device_open, Set_configuration 1], Rejected err)
              | None \<Rightarrow>
                  (case filter (\<lambda>iface. bInterfaceClass iface = interfaceClass s0)
                          (interfaces (usb_device s0)) of
                     [] \<Rightarrow>
                       (s0, [Device_open, Set_configuration 1],
                        Uncaught (Error ''No HID interfaces found.''))
                   | iface # _ \<Rightarrow>
                       (forEach_endpoint (endpoints iface) (s0\<lparr>interface := Some iface\<rparr>),
                        [Device_open, Set_configuration 1], Resolved ()))))"

definition USB_close :: "unit completion \<Rightarrow> USB \<Rightarrow> USB \<times> call list \<times> unit promise" where
  "USB_close r s =
     (case r of
        Throws ex \<Rightarrow> (s, [Device_close], Rejected ex)
      | Returns _ \<Rightarrow> (s, [Device_close], Resolved ()))"

text \<open>The callback shared by both branches of \<^verbatim>\<open>read\<close>.\<close>

definition read_callback :: "error option \<times> byte list \<Rightarrow> byte list promise" where
  "read_callback r =
     (case fst r of Some err \<Rightarrow> Rejected err | None \<Rightarrow> Resolved (bufferToDataView (snd r)))"

definition USB_read :: "error option \<times> byte list \<Rightarrow> USB \<Rightarrow> USB \<times> call list \<times> byte list promise" where
  "USB_read r s =
     (case endpointIn s of
        Some ep \<Rightarrow>
          (let packetSize = wMaxPacketSize ep
           in (s, [In_transfer ep packetSize], read_callback r))
      | None \<Rightarrow>
          (case interface s of
             None \<Rightarrow> (s, [], Rejected TypeError)
           | Some iface \<Rightarrow>
               (s, [Control_in
                      (LIBUSB_ENDPOINT_IN OR LIBUSB_REQUEST_TYPE_CLASS OR LIBUSB_RECIPIENT_INTERFACE)
                      GET_REPORT IN_REPORT (interfaceNumber iface) PACKET_SIZE],
                read_callback r)))"

text \<open>The callback shared by both branches of \<^verbatim>\<open>write\<close>.\<close>

definition write_callback :: "error option \<Rightarrow> unit promise" where
  "write_callback r = (case r of Some err \<Rightarrow> Rejected err | None \<Rightarrow> Resolved ())"

definition USB_write :: "error option \<Rightarrow> USB \<Rightarrow> buffer_source \<Rightarrow> USB \<times> call list \<times> unit promise" where
  "USB_write r s data =
     (case endpointOut s of
        Some ep \<Rightarrow>
          (let packetSize = wMaxPacketSize ep;
               buffer = sliceBuffer data packetSize
           in (s, [Out_transfer ep (bufferSourceToBuffer buffer)], write_callback r))
      | None \<Rightarrow>
          (let buffer = sliceBuffer data PACKET_SIZE
           in case interface s of
                None \<Rightarrow> (s, [], Rejected TypeError)
              | Some iface \<Rightarrow>
                  (s, [Control_out
                         (LIBUSB_ENDPOINT_OUT OR LIBUSB_REQUEST_TYPE_CLASS OR LIBUSB_RECIPIENT_INTERFACE)
                         SET_REPORT OUT_REPORT (interfaceNumber iface)
                         (bufferSourceToBuffer buffer)],
                   write_callback r)))"

subsection \<open>Sessions\<close>

text \<open>
  A session is a sequence of reads and writes on an opened instance; each operation
  comes with the answer the driver gives to it.
\<close>

datatype operation =
    Read "error option \<times> byte list"
  | Write buffer_source "error option"

fun USB_step :: "USB \<Rightarrow> operation \<Rightarrow> USB \<times> call list" where
  "USB_step s (Read r) = (let (s', calls, _) = USB_read r s in (s', calls))"
| "USB_step s (Write data r) = (let (s', calls, _) = USB_write r s data in (s', calls))"

fun USB_session :: "USB \<Rightarrow> operation list \<Rightarrow> USB \<times> call list" where
  "USB_session s [] = (s, [])"
| "USB_session s (x # xs) =
     (let (s', calls) = USB_step s x;
          (s'', calls') = USB_session s' xs
      in (s'', calls @ calls'))"

definition is_endpoint_transfer :: "call \<Rightarrow> bool" where
  "is_endpoint_transfer c =
     (case c of In_transfer _ _ \<Rightarrow> True | Out_transfer _ _ \<Rightarrow> True | _ \<Rightarrow> False)"

definition is_control_transfer :: "call \<Rightarrow> bool" where
  "is_control_transfer c =
     (case c of Control_in _ _ _ _ _ \<Rightarrow> True | Control_out _ _ _ _ _ \<Rightarrow> True | _ \<Rightarrow> False)"

section \<open>Properties\<close>

lemma pad_eq: "pad xs = xs @ replicate (PACKET_SIZE - length xs) 0"
proof (induction xs rule: pad.induct)
  case (1 array)
  show ?case
  proof (cases "length array < PACKET_SIZE")
    case True
    then have "PACKET_SIZE - length array = Suc (PACKET_SIZE - Suc (length array))"
      by simp
    with True 1 show ?thesis
      by (subst pad.simps) (simp add: replicate_app_Cons_same)
  next
    case False
    then show ?thesis
      by (subst pad.simps) simp
  qed
qed

subsection \<open>HID write framing\<close>

lemma HID_write_array_other:
  "platform \<noteq> ''win32'' \<Longrightarrow>
     HID_write_array platform data =
       arrayBufferOf data @ replicate (PACKET_SIZE - length (arrayBufferOf data)) 0"
  by (simp add: HID_write_array_def Let_def pad_eq)

lemma HID_write_array_win32:
  "HID_write_array ''win32'' data =
     0 # arrayBufferOf data @ replicate (PACKET_SIZE - length (arrayBufferOf data)) 0"
  by (simp add: HID_write_array_def Let_def pad_eq)

lemma HID_write_calls:
  "hid_device s = Some h \<Longrightarrow>
     fst (snd (HID_write r s data)) = [Hid_write h (HID_write_array (hid_os s) data)]"
  by (cases r) (simp_all add: HID_write_def)

text \<open>
  Claim C2, as amended. \<^verbatim>\<open>write\<close> works on the backing buffer of its argument: the
  \<^verbatim>\<open>ArrayBuffer\<close> itself, or the buffer a view is on, whatever the offset and length of
  the view. When that buffer has fewer than 64 bytes, on a platform other than
  \<^verbatim>\<open>win32\<close>, the driver receives one array of exactly 64 bytes: the buffer's bytes in
  order, then zeros; 10 bytes are followed by 54 zeros. For an \<^verbatim>\<open>ArrayBuffer\<close> and for a
  view that spans its whole buffer these bytes are the caller's payload.
\<close>

theorem HID_write_pads_to_64:
  assumes os: "hid_os s \<noteq> ''win32''"
    and dev: "hid_device s = Some h"
    and src: "data = ArrayBuffer bs \<or> data = ArrayBufferView bs byteOffset byteLength"
    and short: "length bs < 64"
  shows "\<exists>array. fst (snd (HID_write r s data)) = [Hid_write h array]
           \<and> length array = 64
           \<and> take (length bs) array = bs
           \<and> drop (length bs) array = replicate (64 - length bs) 0
           \<and> (length bs = 10 \<longrightarrow> array = bs @ replicate 54 0)
           \<and> (data = ArrayBuffer bs \<or> byteOffset = 0 \<and> byteLength = length bs
                \<longrightarrow> payload data = bs)"
proof -
  let ?array = "HID_write_array (hid_os s) data"
  have bs: "arrayBufferOf data = bs"
    using src by (auto simp add: arrayBufferOf_def)
  have eq: "?array = bs @ replicate (64 - length bs) 0"
    using os by (simp add: HID_write_array_other PACKET_SIZE_def bs)
  have "fst (snd (HID_write r s data)) = [Hid_write h ?array]"
    using dev by (rule HID_write_calls)
  moreover have "length ?array = 64"
    using short by (simp add: eq)
  moreover have "take (length bs) ?array = bs"
    by (simp add: eq)
  moreover have "drop (length bs) ?array = replicate (64 - length bs) 0"
    by (simp add: eq)
  moreover have "length bs = 10 \<longrightarrow> ?array = bs @ replicate 54 0"
    by (simp add: eq)
  moreover have "data = ArrayBuffer bs \<or> byteOffset = 0 \<and> byteLength = length bs
      \<longrightarrow> payload data = bs"
    using src by (auto simp add: payload_def)
  ultimately show ?thesis by blast
qed

theorem HID_write_pads_to_64_witness:
  "fst (snd (HID_write (Returns 64)
        \<lparr>hid_os = ''linux'', hid_path = ''/dev/hidraw0'', hid_device = Some (Handle ''/dev/hidraw0'')\<rparr>
        (ArrayBuffer [1, 2, 3, 4, 5, 6, 7, 8, 9, 10])))
     = [Hid_write (Handle ''/dev/hidraw0'') ([1, 2, 3, 4, 5, 6, 7, 8, 9, 10] @ replicate 54 0)]
   \<and> payload (ArrayBuffer [1, 2, 3, 4, 5, 6, 7, 8, 9, 10]) = [1, 2, 3, 4, 5, 6, 7, 8, 9, 10]
   \<and> fst (snd (HID_write (Returns 64)
        \<lparr>hid_os = ''linux'', hid_path = ''/dev/hidraw0'', hid_device = Some (Handle ''/dev/hidraw0'')\<rparr>
        (ArrayBufferView [1, 2, 3, 4, 5] 1 2)))
     = [Hid_write (Handle ''/dev/hidraw0'') ([1, 2, 3, 4, 5] @ replicate 59 0)]"
proof -
  let ?s = "\<lparr>hid_os = ''linux'', hid_path = ''/dev/hidraw0'', hid_device = Some (Handle ''/dev/hidraw0'')\<rparr>"
  let ?ten = "[1, 2, 3, 4, 5, 6, 7, 8, 9, 10] :: byte list"
  let ?five = "[1, 2, 3, 4, 5] :: byte list"
  have "\<exists>array. fst (snd (HID_write (Returns 64) ?s (ArrayBuffer ?ten)))
           = [Hid_write (Handle ''/dev/hidraw0'') array]
         \<and> array = ?ten @ replicate 54 0 \<and> payload (ArrayBuffer ?ten) = ?ten"
    using HID_write_pads_to_64 [of ?s "Handle ''/dev/hidraw0''" "ArrayBuffer ?ten" ?ten 0 10
        "Returns 64"]
    by simp
  then have a: "fst (snd (HID_write (Returns 64) ?s (ArrayBuffer ?ten)))
           = [Hid_write (Handle ''/dev/hidraw0'') (?ten @ replicate 54 0)]"
    and p: "payload (ArrayBuffer ?ten) = ?ten"
    by auto
  have "\<exists>array. fst (snd (HID_write (Returns 64) ?s (ArrayBufferView ?five 1 2)))
           = [Hid_write (Handle ''/dev/hidraw0'') array]
         \<and> take (length ?five) array = ?five
         \<and> drop (length ?five) array = replicate (64 - length ?five) 0"
    using HID_write_pads_to_64 [of ?s "Handle ''/dev/hidraw0''" "ArrayBufferView ?five 1 2"
        ?five 1 2 "Returns 64"]
    by auto
  then obtain array where c: "fst (snd (HID_write (Returns 64) ?s (ArrayBufferView ?five 1 2)))
           = [Hid_write (Handle ''/dev/hidraw0'') array]"
    and t: "take (length ?five) array = ?five"
    and d: "drop (length ?five) array = replicate (64 - length ?five) 0"
    by blast
  have "array = take (length ?five) array @ drop (length ?five) array"
    by (rule append_take_drop_id [symmetric])
  then have "array = ?five @ replicate 59 0"
    unfolding t d by simp
  with a p c show ?thesis
    by simp
qed

text \<open>
  Claim C2 as stated, for every input payload shorter than 64 bytes, fails for a view
  on a part of its buffer: the 2-byte view at offset 1 of a 5-byte buffer is sent as
  the 5 bytes of the buffer and 59 zeros, which do not start with the payload, and a
  2-byte view of a 100-byte buffer is sent as 100 bytes.
\<close>

theorem HID_write_view_counterexample:
  "payload (ArrayBufferView [1, 2, 3, 4, 5] 1 2) = [2, 3]
   \<and> fst (snd (HID_write (Returns 64)
        \<lparr>hid_os = ''linux'', hid_path = ''/dev/hidraw0'', hid_device = Some (Handle ''/dev/hidraw0'')\<rparr>
        (ArrayBufferView [1, 2, 3, 4, 5] 1 2)))
     = [Hid_write (Handle ''/dev/hidraw0'') ([1, 2, 3, 4, 5] @ replicate 59 0)]
   \<and> take 2 ([1, 2, 3, 4, 5] @ replicate 59 0) \<noteq> payload (ArrayBufferView [1, 2, 3, 4, 5] 1 2)
   \<and> length (payload (ArrayBufferView (replicate 100 7) 0 2)) = 2
   \<and> fst (snd (HID_write (Returns 64)
        \<lparr>hid_os = ''linux'', hid_path = ''/dev/hidraw0'', hid_device = Some (Handle ''/dev/hidraw0'')\<rparr>
        (ArrayBufferView (replicate 100 7) 0 2)))
     = [Hid_write (Handle ''/dev/hidraw0'') (replicate 100 7)]
   \<and> length (replicate 100 (7 :: byte)) \<noteq> 64"
  by (simp add: payload_def HID_write_def HID_write_array_def Let_def pad_eq
      arrayBufferOf_def PACKET_SIZE_def)

text \<open>
  Claim C3. For every payload, the array written on \<^verbatim>\<open>win32\<close> is the array written on
  any other platform with one zero byte put in front: one byte longer, the rest the
  same.
\<close>

theorem HID_write_win32_prepends:
  assumes dev: "hid_device s = Some h"
    and other: "platform \<noteq> ''win32''"
  shows "\<exists>array. fst (snd (HID_write r (s\<lparr>hid_os := platform\<rparr>) data)) = [Hid_write h array]
           \<and> fst (snd (HID_write r (s\<lparr>hid_os := ''win32''\<rparr>) data)) = [Hid_write h (0 # array)]
           \<and> length (0 # array) = length array + 1"
  using dev other
  by (simp add: HID_write_calls HID_write_array_other HID_write_array_win32)

theorem HID_write_win32_prepends_witness:
  "\<exists>array.
     fst (snd (HID_write (Returns 64)
        \<lparr>hid_os = ''darwin'', hid_path = ''p'', hid_device = Some (Handle ''p'')\<rparr>
        (ArrayBuffer [7, 8]))) = [Hid_write (Handle ''p'') array]
     \<and> fst (snd (HID_write (Returns 64)
        \<lparr>hid_os = ''win32'', hid_path = ''p'', hid_device = Some (Handle ''p'')\<rparr>
        (ArrayBuffer [7, 8]))) = [Hid_write (Handle ''p'') (0 # array)]"
  using HID_write_win32_prepends [of
      "\<lparr>hid_os = ''darwin'', hid_path = ''p'', hid_device = Some (Handle ''p'')\<rparr>"
      "Handle ''p''" "''darwin''" "Returns 64" "ArrayBuffer [7, 8]"]
  by simp

subsection \<open>USB write slicing\<close>

lemma sliceBuffer_bytes:
  "bufferSourceToBuffer (sliceBuffer data n) =
     drop (min (length (arrayBufferOf data)) n) (arrayBufferOf data)"
  by (simp add: bufferSourceToBuffer_def sliceBuffer_def slice_def Let_def arrayBufferOf_def)

text \<open>
  Claim C1. \<^verbatim>\<open>sliceBuffer\<close> computes the length to keep and passes it to \<^verbatim>\<open>slice\<close> as
  the index to start from, so what reaches the driver is the payload without its
  first packet-size bytes (\<open>sliceBuffer_bytes\<close>). Here \<^verbatim>\<open>write\<close> is run with a packet
  size of 64 on a payload of 66 bytes, in both modes, and on a payload of 3 bytes: the
  driver receives the last two bytes, and no byte at all.
\<close>

theorem USB_write_sends_tail:
  "fst (snd (USB_write None
     (fst (USB_open (Returns ()) None
        (USB_new \<lparr>interfaces = [\<lparr>interfaceNumber = 0, bInterfaceClass = 0xFF,
            endpoints = [\<lparr>address = 0x81, direction = ''in'', wMaxPacketSize = 64\<rparr>,
                         \<lparr>address = 0x01, direction = ''out'', wMaxPacketSize = 64\<rparr>]\<rparr>]\<rparr> 0xFF)))
     (ArrayBuffer (replicate 64 1 @ [2, 3]))))
   = [Out_transfer \<lparr>address = 0x01, direction = ''out'', wMaxPacketSize = 64\<rparr> [2, 3]]
   \<and> fst (snd (USB_write None
     (fst (USB_open (Returns ()) None
        (USB_new \<lparr>interfaces = [\<lparr>interfaceNumber = 0, bInterfaceClass = 0xFF,
            endpoints = [\<lparr>address = 0x81, direction = ''in'', wMaxPacketSize = 64\<rparr>,
                         \<lparr>address = 0x01, direction = ''out'', wMaxPacketSize = 64\<rparr>]\<rparr>]\<rparr> 0xFF)))
     (ArrayBuffer [1, 2, 3])))
   = [Out_transfer \<lparr>address = 0x01, direction = ''out'', wMaxPacketSize = 64\<rparr> []]
   \<and> fst (snd (USB_write None
     (fst (USB_open (Returns ()) None
        (USB_new \<lparr>interfaces = [\<lparr>interfaceNumber = 0, bInterfaceClass = 0xFF,
            endpoints = []\<rparr>]\<rparr> 0xFF)))
     (ArrayBuffer (replicate 64 1 @ [2, 3]))))
   = [Control_out 0x21 0x09 0x200 0 [2, 3]]"
  by (simp add: USB_open_def USB_new_def USB_write_def sliceBuffer_bytes arrayBufferOf_def
      PACKET_SIZE_def LIBUSB_ENDPOINT_OUT_def LIBUSB_REQUEST_TYPE_CLASS_def
      LIBUSB_RECIPIENT_INTERFACE_def SET_REPORT_def OUT_REPORT_def)


subsection \<open>USB open\<close>

lemma forEach_endpoint_fields:
  "usb_device (forEach_endpoint es s) = usb_device s
   \<and> interfaceClass (forEach_endpoint es s) = interfaceClass s
   \<and> interface (forEach_endpoint es s) = interface s"
  by (induction es arbitrary: s) simp_all

lemma forEach_endpoint_in:
  "endpointIn (forEach_endpoint es s) =
     (if filter (\<lambda>e. direction e = ''in'') es = [] then endpointIn s
      else Some (last (filter (\<lambda>e. direction e = ''in'') es)))"
  by (induction es arbitrary: s) simp_all

lemma forEach_endpoint_out:
  "endpointOut (forEach_endpoint es s) =
     (if filter (\<lambda>e. direction e \<noteq> ''in'') es = [] then endpointOut s
      else Some (last (filter (\<lambda>e. direction e \<noteq> ''in'') es)))"
  by (induction es arbitrary: s) simp_all

lemma USB_open_Resolved:
  assumes "USB_open ro rc s = (s', cs, Resolved ())"
    and "interface s' = Some iface"
  shows "s' = forEach_endpoint (endpoints iface)
                (s\<lparr>endpointIn := None, endpointOut := None, interface := Some iface\<rparr>)"
    and "filter (\<lambda>i. bInterfaceClass i = interfaceClass s) (interfaces (usb_device s)) \<noteq> []"
    and "hd (filter (\<lambda>i. bInterfaceClass i = interfaceClass s) (interfaces (usb_device s))) = iface"
  using assms
  by (auto simp add: USB_open_def Let_def forEach_endpoint_fields
      split: completion.splits option.splits list.splits)

lemma USB_open_single:
  assumes "filter (\<lambda>i. bInterfaceClass i = interfaceClass s) (interfaces (usb_device s)) = [iface]"
  shows "interface (fst (USB_open (Returns ()) None s)) = Some iface"
    and "snd (snd (USB_open (Returns ()) None s)) = Resolved ()"
  using assms by (simp_all add: USB_open_def Let_def forEach_endpoint_fields)

lemma USB_open_no_match:
  assumes "filter (\<lambda>i. bInterfaceClass i = interfaceClass s) (interfaces (usb_device s)) = []"
  shows "snd (snd (USB_open (Returns ()) None s)) = Uncaught (Error ''No HID interfaces found.'')"
  using assms by (simp add: USB_open_def Let_def)

text \<open>
  Claim C4. A device with exactly one interface of the configured class has that
  interface selected (\<open>USB_open_single\<close>). With no interface of that class, \<^verbatim>\<open>open\<close>
  does not resolve, and does not reject either: the \<^verbatim>\<open>throw\<close> is inside the callback
  of \<^verbatim>\<open>setConfiguration\<close>, where the line before it uses \<^verbatim>\<open>reject\<close>. Here the code is
  run on a device whose only interface has class 3 while the filter is \<open>0xFF\<close>.
\<close>

theorem USB_open_no_interface_throws:
  "USB_open (Returns ()) None
     (USB_new \<lparr>interfaces = [\<lparr>interfaceNumber = 0, bInterfaceClass = 3, endpoints = []\<rparr>]\<rparr> 0xFF)
   = (USB_new \<lparr>interfaces = [\<lparr>interfaceNumber = 0, bInterfaceClass = 3, endpoints = []\<rparr>]\<rparr> 0xFF,
      [Device_open, Set_configuration 1],
      Uncaught (Error ''No HID interfaces found.''))"
  by (simp add: USB_open_def USB_new_def)

text \<open>
  Claim C5, as amended. When \<^verbatim>\<open>open\<close> resolves, the read endpoint is the last endpoint
  of direction \<^verbatim>\<open>"in"\<close> in the declared order of the selected interface, and the write
  endpoint is the last endpoint of any other direction: each endpoint the loop visits
  overwrites the one stored before it.
\<close>

theorem USB_open_keeps_last_endpoint:
  assumes opened: "USB_open ro rc s = (s', cs, Resolved ())"
    and sel: "interface s' = Some iface"
  shows "(filter (\<lambda>e. direction e = ''in'') (endpoints iface) \<noteq> []
            \<longrightarrow> endpointIn s' = Some (last (filter (\<lambda>e. direction e = ''in'') (endpoints iface))))
       \<and> (filter (\<lambda>e. direction e \<noteq> ''in'') (endpoints iface) \<noteq> []
            \<longrightarrow> endpointOut s' = Some (last (filter (\<lambda>e. direction e \<noteq> ''in'') (endpoints iface))))"
  by (simp add: USB_open_Resolved(1) [OF opened sel] forEach_endpoint_in forEach_endpoint_out)

theorem USB_open_keeps_last_endpoint_witness:
  "endpointIn (fst (USB_open (Returns ()) None
     (USB_new \<lparr>interfaces = [\<lparr>interfaceNumber = 0, bInterfaceClass = 0xFF,
         endpoints = [\<lparr>address = 0x81, direction = ''in'', wMaxPacketSize = 64\<rparr>,
                      \<lparr>address = 0x82, direction = ''in'', wMaxPacketSize = 64\<rparr>,
                      \<lparr>address = 0x01, direction = ''out'', wMaxPacketSize = 64\<rparr>,
                      \<lparr>address = 0x02, direction = ''out'', wMaxPacketSize = 64\<rparr>]\<rparr>]\<rparr> 0xFF)))
   = Some \<lparr>address = 0x82, direction = ''in'', wMaxPacketSize = 64\<rparr>
   \<and> endpointOut (fst (USB_open (Returns ()) None
     (USB_new \<lparr>interfaces = [\<lparr>interfaceNumber = 0, bInterfaceClass = 0xFF,
         endpoints = [\<lparr>address = 0x81, direction = ''in'', wMaxPacketSize = 64\<rparr>,
                      \<lparr>address = 0x82, direction = ''in'', wMaxPacketSize = 64\<rparr>,
                      \<lparr>address = 0x01, direction = ''out'', wMaxPacketSize = 64\<rparr>,
                      \<lparr>address = 0x02, direction = ''out'', wMaxPacketSize = 64\<rparr>]\<rparr>]\<rparr> 0xFF)))
   = Some \<lparr>address = 0x02, direction = ''out'', wMaxPacketSize = 64\<rparr>"
proof -
  let ?eps = "[\<lparr>address = 0x81, direction = ''in'', wMaxPacketSize = 64\<rparr>,
               \<lparr>address = 0x82, direction = ''in'', wMaxPacketSize = 64\<rparr>,
               \<lparr>address = 0x01, direction = ''out'', wMaxPacketSize = 64\<rparr>,
               \<lparr>address = 0x02, direction = ''out'', wMaxPacketSize = 64\<rparr>]"
  let ?iface = "\<lparr>interfaceNumber = 0, bInterfaceClass = 0xFF, endpoints = ?eps\<rparr>"
  let ?s = "USB_new \<lparr>interfaces = [?iface]\<rparr> 0xFF"
  let ?r = "USB_open (Returns ()) None ?s"
  have opened: "?r = (fst ?r, [Device_open, Set_configuration 1], Resolved ())"
    by (simp add: USB_open_def USB_new_def)
  have sel: "interface (fst ?r) = Some ?iface"
    by (simp add: USB_open_def USB_new_def)
  show ?thesis
    using USB_open_keeps_last_endpoint [OF opened sel] by simp
qed

text \<open>
  Claim C5 as stated, with the first endpoint of each direction, fails on an interface
  that declares two endpoints per direction.
\<close>

theorem USB_open_first_endpoint_counterexample:
  "endpointIn (fst (USB_open (Returns ()) None
     (USB_new \<lparr>interfaces = [\<lparr>interfaceNumber = 0, bInterfaceClass = 0xFF,
         endpoints = [\<lparr>address = 0x81, direction = ''in'', wMaxPacketSize = 64\<rparr>,
                      \<lparr>address = 0x82, direction = ''in'', wMaxPacketSize = 64\<rparr>,
                      \<lparr>address = 0x01, direction = ''out'', wMaxPacketSize = 64\<rparr>,
                      \<lparr>address = 0x02, direction = ''out'', wMaxPacketSize = 64\<rparr>]\<rparr>]\<rparr> 0xFF)))
   \<noteq> Some \<lparr>address = 0x81, direction = ''in'', wMaxPacketSize = 64\<rparr>
   \<and> endpointOut (fst (USB_open (Returns ()) None
     (USB_new \<lparr>interfaces = [\<lparr>interfaceNumber = 0, bInterfaceClass = 0xFF,
         endpoints = [\<lparr>address = 0x81, direction = ''in'', wMaxPacketSize = 64\<rparr>,
                      \<lparr>address = 0x82, direction = ''in'', wMaxPacketSize = 64\<rparr>,
                      \<lparr>address = 0x01, direction = ''out'', wMaxPacketSize = 64\<rparr>,
                      \<lparr>address = 0x02, direction = ''out'', wMaxPacketSize = 64\<rparr>]\<rparr>]\<rparr> 0xFF)))
   \<noteq> Some \<lparr>address = 0x01, direction = ''out'', wMaxPacketSize = 64\<rparr>"
  by (simp add: USB_open_def USB_new_def)

subsection \<open>Errors of the driver\<close>

text \<open>
  Claim C6. In both backends, when \<^verbatim>\<open>write\<close> reaches the driver and the driver reports
  a failure \<open>e\<close> (the HID driver's \<^verbatim>\<open>write\<close> throws it, the USB driver passes it to the
  callback), the promise is rejected with \<open>e\<close>.
\<close>

theorem write_failure_rejects:
  "(fst (snd (HID_write (Throws e) h data)) \<noteq> []
      \<longrightarrow> snd (snd (HID_write (Throws e) h data)) = Rejected e)
   \<and> (fst (snd (USB_write (Some e) u data)) \<noteq> []
      \<longrightarrow> snd (snd (USB_write (Some e) u data)) = Rejected e)"
  by (simp add: HID_write_def USB_write_def write_callback_def Let_def
      split: option.splits)

theorem write_failure_rejects_witness:
  "fst (snd (HID_write (Throws (Driver ''Cannot write to HID device''))
       \<lparr>hid_os = ''linux'', hid_path = ''p'', hid_device = Some (Handle ''p'')\<rparr>
       (ArrayBuffer [1]))) \<noteq> []
   \<and> snd (snd (HID_write (Throws (Driver ''Cannot write to HID device''))
       \<lparr>hid_os = ''linux'', hid_path = ''p'', hid_device = Some (Handle ''p'')\<rparr>
       (ArrayBuffer [1]))) = Rejected (Driver ''Cannot write to HID device'')
   \<and> fst (snd (USB_write (Some (Driver ''LIBUSB_ERROR_IO''))
       \<lparr>usb_device = \<lparr>interfaces = []\<rparr>, interfaceClass = 0xFF,
        interface = Some \<lparr>interfaceNumber = 0, bInterfaceClass = 0xFF, endpoints = []\<rparr>,
        endpointIn = None, endpointOut = None\<rparr>
       (ArrayBuffer [1]))) \<noteq> []
   \<and> snd (snd (USB_write (Some (Driver ''LIBUSB_ERROR_IO''))
       \<lparr>usb_device = \<lparr>interfaces = []\<rparr>, interfaceClass = 0xFF,
        interface = Some \<lparr>interfaceNumber = 0, bInterfaceClass = 0xFF, endpoints = []\<rparr>,
        endpointIn = None, endpointOut = None\<rparr>
       (ArrayBuffer [1]))) = Rejected (Driver ''LIBUSB_ERROR_IO'')"
proof -
  have a: "fst (snd (HID_write (Throws (Driver ''Cannot write to HID device''))
       \<lparr>hid_os = ''linux'', hid_path = ''p'', hid_device = Some (Handle ''p'')\<rparr>
       (ArrayBuffer [1]))) \<noteq> []"
    by (simp add: HID_write_def)
  have b: "fst (snd (USB_write (Some (Driver ''LIBUSB_ERROR_IO''))
       \<lparr>usb_device = \<lparr>interfaces = []\<rparr>, interfaceClass = 0xFF,
        interface = Some \<lparr>interfaceNumber = 0, bInterfaceClass = 0xFF, endpoints = []\<rparr>,
        endpointIn = None, endpointOut = None\<rparr>
       (ArrayBuffer [1]))) \<noteq> []"
    by (simp add: USB_write_def Let_def)
  show ?thesis
    using a b
      write_failure_rejects [where e = "Driver ''Cannot write to HID device''"
        and h = "\<lparr>hid_os = ''linux'', hid_path = ''p'', hid_device = Some (Handle ''p'')\<rparr>"
        and data = "ArrayBuffer [1]"]
      write_failure_rejects [where e = "Driver ''LIBUSB_ERROR_IO''"
        and u = "\<lparr>usb_device = \<lparr>interfaces = []\<rparr>, interfaceClass = 0xFF,
          interface = Some \<lparr>interfaceNumber = 0, bInterfaceClass = 0xFF, endpoints = []\<rparr>,
          endpointIn = None, endpointOut = None\<rparr>"
        and data = "ArrayBuffer [1]"]
    by blast
qed

subsection \<open>Close\<close>

text \<open>
  Claim C7, as amended. Two calls of \<^verbatim>\<open>close\<close> in a row, the driver's own close
  returning normally, both resolve and leave the instance as one call does. For HID the
  handle is then detached and the second call does not reach the driver, whatever the
  driver would answer. For USB \<^verbatim>\<open>close\<close> changes no field of the instance and calls the
  driver's close each time.
\<close>

theorem close_twice:
  "(HID_close (Returns ()) h = (h1, c1, p1) \<and> HID_close r h1 = (h2, c2, p2)
      \<longrightarrow> p1 = Resolved () \<and> p2 = Resolved () \<and> h2 = h1 \<and> hid_device h1 = None \<and> c2 = [])
   \<and> (USB_close (Returns ()) u = (u1, d1, q1) \<and> USB_close (Returns ()) u1 = (u2, d2, q2)
      \<longrightarrow> q1 = Resolved () \<and> q2 = Resolved () \<and> u2 = u1 \<and> u1 = u
          \<and> d1 = [Device_close] \<and> d2 = [Device_close])"
  by (auto simp add: HID_close_def USB_close_def split: option.splits)

theorem close_twice_witness:
  "HID_close (Returns ())
      \<lparr>hid_os = ''linux'', hid_path = ''p'', hid_device = Some (Handle ''p'')\<rparr>
    = (\<lparr>hid_os = ''linux'', hid_path = ''p'', hid_device = None\<rparr>,
       [Hid_close (Handle ''p'')], Resolved ())
   \<and> HID_close (Throws TypeError) \<lparr>hid_os = ''linux'', hid_path = ''p'', hid_device = None\<rparr>
    = (\<lparr>hid_os = ''linux'', hid_path = ''p'', hid_device = None\<rparr>, [], Resolved ())
   \<and> USB_close (Returns ()) (USB_new \<lparr>interfaces = []\<rparr> 0xFF)
    = (USB_new \<lparr>interfaces = []\<rparr> 0xFF, [Device_close], Resolved ())"
proof -
  let ?h = "\<lparr>hid_os = ''linux'', hid_path = ''p'', hid_device = Some (Handle ''p'')\<rparr>"
  let ?u = "USB_new \<lparr>interfaces = []\<rparr> 0xFF"
  obtain h1 c1 p1 where a: "HID_close (Returns ()) ?h = (h1, c1, p1)"
    by (rule prod_cases3)
  obtain h2 c2 p2 where b: "HID_close (Throws TypeError) h1 = (h2, c2, p2)"
    by (rule prod_cases3)
  obtain u1 d1 q1 where c: "USB_close (Returns ()) ?u = (u1, d1, q1)"
    by (rule prod_cases3)
  obtain u2 d2 q2 where d: "USB_close (Returns ()) u1 = (u2, d2, q2)"
    by (rule prod_cases3)
  have h1: "h1 = \<lparr>hid_os = ''linux'', hid_path = ''p'', hid_device = None\<rparr>"
    and c1: "c1 = [Hid_close (Handle ''p'')]"
    using a by (simp_all add: HID_close_def)
  from close_twice [of ?h h1 c1 p1 "Throws TypeError" h2 c2 p2 ?u u1 d1 q1 u2 d2 q2] a b c d
  show ?thesis
    by (simp add: h1 c1)
qed

text \<open>
  Claim C7 as stated fails for USB: after two calls of \<^verbatim>\<open>close\<close> the endpoint found
  by \<^verbatim>\<open>open\<close> is still stored, and a close that the driver answers with an exception
  rejects.
\<close>

theorem USB_close_keeps_endpoints_counterexample:
  "endpointIn (fst (USB_close (Returns ()) (fst (USB_close (Returns ())
     (fst (USB_open (Returns ()) None
        (USB_new \<lparr>interfaces = [\<lparr>interfaceNumber = 0, bInterfaceClass = 0xFF,
            endpoints = [\<lparr>address = 0x81, direction = ''in'', wMaxPacketSize = 64\<rparr>,
                         \<lparr>address = 0x01, direction = ''out'', wMaxPacketSize = 64\<rparr>]\<rparr>]\<rparr> 0xFF)))))))
   = Some \<lparr>address = 0x81, direction = ''in'', wMaxPacketSize = 64\<rparr>
   \<and> snd (snd (USB_close (Throws (Driver ''LIBUSB_ERROR_NO_DEVICE''))
        (USB_new \<lparr>interfaces = []\<rparr> 0xFF)))
   = Rejected (Driver ''LIBUSB_ERROR_NO_DEVICE'')"
  by (simp add: USB_open_def USB_new_def USB_close_def)

subsection \<open>Transfer mode\<close>

lemma USB_open_no_endpoints:
  assumes opened: "USB_open ro rc s = (s', cs, Resolved ())"
    and sel: "interface s' = Some iface"
    and none: "endpoints iface = []"
  shows "endpointIn s' = None" and "endpointOut s' = None"
  by (simp_all add: USB_open_Resolved(1) [OF opened sel] none)

lemma USB_open_endpoints_set:
  assumes opened: "USB_open ro rc s = (s', cs, Resolved ())"
    and sel: "interface s' = Some iface"
  shows "endpointIn s' \<noteq> None \<longleftrightarrow> (\<exists>e\<in>set (endpoints iface). direction e = ''in'')"
    and "endpointOut s' \<noteq> None \<longleftrightarrow> (\<exists>e\<in>set (endpoints iface). direction e \<noteq> ''in'')"
  by (simp_all add: USB_open_Resolved(1) [OF opened sel] forEach_endpoint_in
      forEach_endpoint_out filter_empty_conv)



lemma USB_step_endpoint:
  assumes "endpointIn s \<noteq> None" and "endpointOut s \<noteq> None"
  shows "\<exists>c. USB_step s x = (s, [c]) \<and> is_endpoint_transfer c"
  using assms
  by (cases x) (auto simp add: USB_read_def USB_write_def Let_def is_endpoint_transfer_def)

lemma USB_step_control:
  assumes "endpointIn s = None" and "endpointOut s = None" and "interface s = Some iface"
  shows "\<exists>c. USB_step s x = (s, [c]) \<and> is_control_transfer c"
  using assms
  by (cases x) (auto simp add: USB_read_def USB_write_def Let_def is_control_transfer_def)

lemma USB_session_endpoint:
  assumes "endpointIn s \<noteq> None" and "endpointOut s \<noteq> None"
  shows "fst (USB_session s xs) = s \<and> length (snd (USB_session s xs)) = length xs
       \<and> list_all is_endpoint_transfer (snd (USB_session s xs))"
proof (induction xs)
  case Nil
  show ?case by simp
next
  case (Cons x xs)
  obtain c where "USB_step s x = (s, [c])" and "is_endpoint_transfer c"
    using USB_step_endpoint [OF assms] by blast
  with Cons show ?case
    by (simp add: case_prod_unfold)
qed

lemma USB_session_control:
  assumes "endpointIn s = None" and "endpointOut s = None" and "interface s = Some iface"
  shows "fst (USB_session s xs) = s \<and> length (snd (USB_session s xs)) = length xs
       \<and> list_all is_control_transfer (snd (USB_session s xs))"
proof (induction xs)
  case Nil
  show ?case by simp
next
  case (Cons x xs)
  obtain c where "USB_step s x = (s, [c])" and "is_control_transfer c"
    using USB_step_control [OF assms] by blast
  with Cons show ?case
    by (simp add: case_prod_unfold)
qed

text \<open>
  Claim C9. After \<^verbatim>\<open>open\<close>, a session of any length and any mix of reads and writes,
  whatever the driver answers, leaves the instance as \<^verbatim>\<open>open\<close> left it and issues one
  driver call per operation: endpoint transfers only when the selected interface has an
  \<^verbatim>\<open>"in"\<close> and an \<^verbatim>\<open>"out"\<close> endpoint, control transfers only when it has no endpoint.
\<close>

theorem USB_mode_fixed:
  assumes opened: "USB_open ro rc s = (s', cs, Resolved ())"
    and sel: "interface s' = Some iface"
  shows "((\<exists>e\<in>set (endpoints iface). direction e = ''in'')
          \<and> (\<exists>e\<in>set (endpoints iface). direction e = ''out'')
          \<longrightarrow> fst (USB_session s' xs) = s'
              \<and> length (snd (USB_session s' xs)) = length xs
              \<and> list_all is_endpoint_transfer (snd (USB_session s' xs)))
       \<and> (endpoints iface = []
          \<longrightarrow> fst (USB_session s' xs) = s'
              \<and> length (snd (USB_session s' xs)) = length xs
              \<and> list_all is_control_transfer (snd (USB_session s' xs)))"
proof (intro conjI impI)
  assume both: "(\<exists>e\<in>set (endpoints iface). direction e = ''in'')
          \<and> (\<exists>e\<in>set (endpoints iface). direction e = ''out'')"
  then obtain ea where ea: "ea \<in> set (endpoints iface)" and out: "direction ea = ''out''"
    by blast
  from out have "direction ea \<noteq> ''in''"
    by simp
  with ea have "\<exists>e\<in>set (endpoints iface). direction e \<noteq> ''in''"
    by blast
  with both have i: "endpointIn s' \<noteq> None" and o: "endpointOut s' \<noteq> None"
    using USB_open_endpoints_set [OF opened sel] by blast+
  from USB_session_endpoint [OF i o, of xs]
  show "fst (USB_session s' xs) = s'"
    and "length (snd (USB_session s' xs)) = length xs"
    and "list_all is_endpoint_transfer (snd (USB_session s' xs))"
    by simp_all
next
  assume none: "endpoints iface = []"
  from USB_session_control [OF USB_open_no_endpoints [OF opened sel none] sel, of xs]
  show "fst (USB_session s' xs) = s'"
    and "length (snd (USB_session s' xs)) = length xs"
    and "list_all is_control_transfer (snd (USB_session s' xs))"
    by simp_all
qed


theorem USB_mode_fixed_witness:
  "snd (USB_session
     (fst (USB_open (Returns ()) None
        (USB_new \<lparr>interfaces = [\<lparr>interfaceNumber = 0, bInterfaceClass = 0xFF,
            endpoints = [\<lparr>address = 0x81, direction = ''in'', wMaxPacketSize = 64\<rparr>,
                         \<lparr>address = 0x01, direction = ''out'', wMaxPacketSize = 64\<rparr>]\<rparr>]\<rparr> 0xFF)))
     [Write (ArrayBuffer [1, 2]) None, Read (None, [3]), Read (Some (Driver ''e''), [])])
   = [Out_transfer \<lparr>address = 0x01, direction = ''out'', wMaxPacketSize = 64\<rparr> [],
      In_transfer \<lparr>address = 0x81, direction = ''in'', wMaxPacketSize = 64\<rparr> 64,
      In_transfer \<lparr>address = 0x81, direction = ''in'', wMaxPacketSize = 64\<rparr> 64]
   \<and> list_all is_endpoint_transfer (snd (USB_session
     (fst (USB_open (Returns ()) None
        (USB_new \<lparr>interfaces = [\<lparr>interfaceNumber = 0, bInterfaceClass = 0xFF,
            endpoints = [\<lparr>address = 0x81, direction = ''in'', wMaxPacketSize = 64\<rparr>,
                         \<lparr>address = 0x01, direction = ''out'', wMaxPacketSize = 64\<rparr>]\<rparr>]\<rparr> 0xFF)))
     [Write (ArrayBuffer [1, 2]) None, Read (None, [3]), Read (Some (Driver ''e''), [])]))
   \<and> list_all is_control_transfer (snd (USB_session
     (fst (USB_open (Returns ()) None
        (USB_new \<lparr>interfaces = [\<lparr>interfaceNumber = 0, bInterfaceClass = 0xFF,
            endpoints = []\<rparr>]\<rparr> 0xFF)))
     [Write (ArrayBuffer [1, 2]) None, Read (None, [3]), Read (Some (Driver ''e''), [])]))"
proof -
  let ?ei = "\<lparr>address = 0x81, direction = ''in'', wMaxPacketSize = 64\<rparr>"
  let ?eo = "\<lparr>address = 0x01, direction = ''out'', wMaxPacketSize = 64\<rparr>"
  let ?ia = "\<lparr>interfaceNumber = 0, bInterfaceClass = 0xFF, endpoints = [?ei, ?eo]\<rparr>"
  let ?ib = "\<lparr>interfaceNumber = 0, bInterfaceClass = 0xFF, endpoints = []\<rparr>"
  let ?ra = "USB_open (Returns ()) None (USB_new \<lparr>interfaces = [?ia]\<rparr> 0xFF)"
  let ?rb = "USB_open (Returns ()) None (USB_new \<lparr>interfaces = [?ib]\<rparr> 0xFF)"
  let ?xs = "[Write (ArrayBuffer [1, 2]) None, Read (None, [3]), Read (Some (Driver ''e''), [])]"
  have oa: "?ra = (fst ?ra, [Device_open, Set_configuration 1], Resolved ())"
    by (simp add: USB_open_def USB_new_def)
  have sa: "interface (fst ?ra) = Some ?ia"
    by (simp add: USB_open_def USB_new_def)
  have ob: "?rb = (fst ?rb, [Device_open, Set_configuration 1], Resolved ())"
    by (simp add: USB_open_def USB_new_def)
  have sb: "interface (fst ?rb) = Some ?ib"
    by (simp add: USB_open_def USB_new_def)
  have calls: "snd (USB_session (fst ?ra) ?xs) = [Out_transfer ?eo [], In_transfer ?ei 64, In_transfer ?ei 64]"
    by (simp add: USB_open_def USB_new_def USB_read_def USB_write_def sliceBuffer_bytes
        arrayBufferOf_def)
  have a: "list_all is_endpoint_transfer (snd (USB_session (fst ?ra) ?xs))"
    using USB_mode_fixed [OF oa sa, of ?xs] by simp
  have b: "list_all is_control_transfer (snd (USB_session (fst ?rb) ?xs))"
    using USB_mode_fixed [OF ob sb, of ?xs] by simp
  from calls a b show ?thesis
    by blast
qed

text \<open>
  Claim C10. After \<^verbatim>\<open>open\<close>, a read is an endpoint transfer exactly when the selected
  interface declares an endpoint of direction \<^verbatim>\<open>"in"\<close>, and a control transfer
  otherwise; a write is an endpoint transfer exactly when the interface declares an
  endpoint of another direction (for the driver, \<^verbatim>\<open>"out"\<close>), and a control transfer
  otherwise. The two are decided separately, so an interface with endpoints of one
  direction only uses both kinds of transfer in one session.
\<close>

theorem USB_direction_fallback:
  assumes opened: "USB_open ro rc s = (s', cs, Resolved ())"
    and sel: "interface s' = Some iface"
  shows "length (fst (snd (USB_read r s'))) = 1
       \<and> length (fst (snd (USB_write w s' data))) = 1
       \<and> (list_all is_endpoint_transfer (fst (snd (USB_read r s')))
            \<longleftrightarrow> (\<exists>e\<in>set (endpoints iface). direction e = ''in''))
       \<and> (list_all is_control_transfer (fst (snd (USB_read r s')))
            \<longleftrightarrow> \<not> (\<exists>e\<in>set (endpoints iface). direction e = ''in''))
       \<and> (list_all is_endpoint_transfer (fst (snd (USB_write w s' data)))
            \<longleftrightarrow> (\<exists>e\<in>set (endpoints iface). direction e \<noteq> ''in''))
       \<and> (list_all is_control_transfer (fst (snd (USB_write w s' data)))
            \<longleftrightarrow> \<not> (\<exists>e\<in>set (endpoints iface). direction e \<noteq> ''in''))"
proof -
  note io = USB_open_endpoints_set [OF opened sel]
  have r: "length (fst (snd (USB_read r s'))) = 1
       \<and> (list_all is_endpoint_transfer (fst (snd (USB_read r s'))) \<longleftrightarrow> endpointIn s' \<noteq> None)
       \<and> (list_all is_control_transfer (fst (snd (USB_read r s'))) \<longleftrightarrow> endpointIn s' = None)"
    using sel
    by (cases "endpointIn s'")
      (simp_all add: USB_read_def Let_def is_endpoint_transfer_def is_control_transfer_def)
  have w: "length (fst (snd (USB_write w s' data))) = 1
       \<and> (list_all is_endpoint_transfer (fst (snd (USB_write w s' data))) \<longleftrightarrow> endpointOut s' \<noteq> None)
       \<and> (list_all is_control_transfer (fst (snd (USB_write w s' data))) \<longleftrightarrow> endpointOut s' = None)"
    using sel
    by (cases "endpointOut s'")
      (simp_all add: USB_write_def Let_def is_endpoint_transfer_def is_control_transfer_def)
  from r w io show ?thesis
    by auto
qed

theorem USB_direction_fallback_witness:
  "fst (snd (USB_read (None, [9])
     (fst (USB_open (Returns ()) None
        (USB_new \<lparr>interfaces = [\<lparr>interfaceNumber = 1, bInterfaceClass = 0xFF,
            endpoints = [\<lparr>address = 0x81, direction = ''in'', wMaxPacketSize = 64\<rparr>]\<rparr>]\<rparr> 0xFF)))))
   = [In_transfer \<lparr>address = 0x81, direction = ''in'', wMaxPacketSize = 64\<rparr> 64]
   \<and> list_all is_endpoint_transfer (fst (snd (USB_read (None, [9])
     (fst (USB_open (Returns ()) None
        (USB_new \<lparr>interfaces = [\<lparr>interfaceNumber = 1, bInterfaceClass = 0xFF,
            endpoints = [\<lparr>address = 0x81, direction = ''in'', wMaxPacketSize = 64\<rparr>]\<rparr>]\<rparr> 0xFF))))))
   \<and> list_all is_control_transfer (fst (snd (USB_write None
     (fst (USB_open (Returns ()) None
        (USB_new \<lparr>interfaces = [\<lparr>interfaceNumber = 1, bInterfaceClass = 0xFF,
            endpoints = [\<lparr>address = 0x81, direction = ''in'', wMaxPacketSize = 64\<rparr>]\<rparr>]\<rparr> 0xFF)))
     (ArrayBuffer [1]))))"
proof -
  let ?ei = "\<lparr>address = 0x81, direction = ''in'', wMaxPacketSize = 64\<rparr>"
  let ?ia = "\<lparr>interfaceNumber = 1, bInterfaceClass = 0xFF, endpoints = [?ei]\<rparr>"
  let ?ra = "USB_open (Returns ()) None (USB_new \<lparr>interfaces = [?ia]\<rparr> 0xFF)"
  have oa: "?ra = (fst ?ra, [Device_open, Set_configuration 1], Resolved ())"
    by (simp add: USB_open_def USB_new_def)
  have sa: "interface (fst ?ra) = Some ?ia"
    by (simp add: USB_open_def USB_new_def)
  have calls: "fst (snd (USB_read (None, [9]) (fst ?ra))) = [In_transfer ?ei 64]"
    by (simp add: USB_open_def USB_new_def USB_read_def)
  from calls USB_direction_fallback [OF oa sa, of "(None, [9])" None "ArrayBuffer [1]"]
  show ?thesis
    by simp
qed

end
